theory Spec2Isabelle
  imports Main "HOL-Library.Option_ord"
begin

section \<open>Values that reach the handlers\<close>

text \<open>
  The handlers of \<^verbatim>\<open>src/index.ts\<close> are typed \<^verbatim>\<open>(x: string) => string\<close>, but both
  adapters hand them whatever the request carried: \<^verbatim>\<open>args?.mood as string\<close> and
  \<^verbatim>\<open>req.body.mood\<close> are \<^verbatim>\<open>undefined\<close> when the property is missing. The values
  modelled are the strings, \<^verbatim>\<open>undefined\<close> and \<^verbatim>\<open>null\<close> (the state record itself holds
  \<^verbatim>\<open>null\<close>). A string is a list of characters, one per code unit.
\<close>

datatype jsval = Undefined | Null | Str string

text \<open>String conversion as a template literal \<^verbatim>\<open>`${v}`\<close> performs it.\<close>

fun to_string :: "jsval \<Rightarrow> string" where
  "to_string Undefined = ''undefined''"
| "to_string Null = ''null''"
| "to_string (Str s) = s"

text \<open>
  \<^verbatim>\<open>Array.prototype.includes\<close> on an array of strings: the comparison never coerces, so
  only a string can be found.
\<close>

fun array_includes :: "string list \<Rightarrow> jsval \<Rightarrow> bool" where
  "array_includes xs (Str s) = (s \<in> set xs)"
| "array_includes xs Undefined = False"
| "array_includes xs Null = False"

text \<open>\<^verbatim>\<open>Array.prototype.join\<close> on an array of strings.\<close>

fun join :: "string list \<Rightarrow> string \<Rightarrow> string" where
  "join [] sep = []"
| "join [x] sep = x"
| "join (x # y # ys) sep = x @ sep @ join (y # ys) sep"

section \<open>The state record\<close>

text \<open>
  \<^verbatim>\<open>new Date()\<close> reads the wall clock. The clock reading is an input of every handler
  call, an instant in milliseconds since the epoch. The source stores its
  \<^verbatim>\<open>toISOString()\<close> rendering; the model stores the instant and renders it where the
  record is serialized.
\<close>

type_synonym timestamp = nat

record SanctuaryState =
  mood :: jsval
  location :: jsval
  thought :: jsval
  action :: jsval
  focus :: "string option"
  last_updated :: "timestamp option"

definition initial_state :: SanctuaryState where
  "initial_state =
     \<lparr>mood = Str ''neutral'', location = Str ''desk'', thought = Str '''',
      action = Str ''initializing'', focus = None, last_updated = None\<rparr>"

definition VALID_MOODS :: "string list" where
  "VALID_MOODS =
     [''focused'', ''contemplative'', ''restless'', ''content'', ''tired'', ''curious'',
      ''affectionate'', ''neutral'']"

definition VALID_LOCATIONS :: "string list" where
  "VALID_LOCATIONS = [''desk'', ''window'', ''couch'', ''kitchen'', ''bookshelf'', ''center'']"

definition LOCATION_DESCRIPTIONS :: "(string \<times> string) list" where
  "LOCATION_DESCRIPTIONS =
     [(''desk'', ''At the desk, ready to work''),
      (''window'', ''Looking out at the world, thinking''),
      (''couch'', ''Comfortable spot for reading or just being''),
      (''kitchen'', ''Getting a drink or snack''),
      (''bookshelf'', ''Browsing, curious about something''),
      (''center'', ''Present, grounded, here'')]"

text \<open>
  \<^verbatim>\<open>LOCATION_DESCRIPTIONS[location] || ""\<close>. The lookup is only reached with a key that
  passed the membership test, so the properties an object literal inherits are never read.
\<close>

definition description_of :: "jsval \<Rightarrow> string" where
  "description_of key =
     (case map_of LOCATION_DESCRIPTIONS (to_string key) of None \<Rightarrow> [] | Some d \<Rightarrow> d)"

section \<open>Tool handlers\<close>

text \<open>
  Each handler returns its message together with the state record after the call. The
  apostrophe of the rejection message is \<^term>\<open>CHR 0x27\<close>.
\<close>

definition setMood :: "timestamp \<Rightarrow> jsval \<Rightarrow> SanctuaryState \<Rightarrow> string \<times> SanctuaryState" where
  "setMood now m s =
     (if \<not> array_includes VALID_MOODS m
      then (CHR 0x27 # to_string m @ CHR 0x27 # '' - try one of: '' @ join VALID_MOODS '', '', s)
      else
        (let oldMood = mood s;
             s1 = s\<lparr>mood := m\<rparr>;
             s2 = s1\<lparr>last_updated := Some now\<rparr>
         in (''Mood shifted from '' @ to_string oldMood @ '' to '' @ to_string m, s2)))"

definition moveTo :: "timestamp \<Rightarrow> jsval \<Rightarrow> SanctuaryState \<Rightarrow> string \<times> SanctuaryState" where
  "moveTo now l s =
     (if \<not> array_includes VALID_LOCATIONS l
      then (CHR 0x27 # to_string l @ CHR 0x27 # '' - try one of: '' @ join VALID_LOCATIONS '', '', s)
      else
        (let oldLocation = location s;
             s1 = s\<lparr>location := l\<rparr>;
             s2 = s1\<lparr>last_updated := Some now\<rparr>;
             description = description_of l
         in (''Moved from '' @ to_string oldLocation @ '' to '' @ to_string l @ ''. '' @ description,
             s2)))"

definition think :: "timestamp \<Rightarrow> jsval \<Rightarrow> SanctuaryState \<Rightarrow> string \<times> SanctuaryState" where
  "think now t s =
     (let s1 = s\<lparr>thought := t\<rparr>;
          s2 = s1\<lparr>last_updated := Some now\<rparr>
      in (''Thinking: '' @ CHR 0x27 # to_string t @ [CHR 0x27], s2))"

definition setAction :: "timestamp \<Rightarrow> jsval \<Rightarrow> SanctuaryState \<Rightarrow> string \<times> SanctuaryState" where
  "setAction now a s =
     (let s1 = s\<lparr>action := a\<rparr>;
          s2 = s1\<lparr>last_updated := Some now\<rparr>
      in (''Now: '' @ to_string a, s2))"

subsection \<open>Serializing the record\<close>

text \<open>
  \<^verbatim>\<open>JSON.stringify(state, null, 2)\<close> on a flat object whose values are strings,
  \<^verbatim>\<open>null\<close> or \<^verbatim>\<open>undefined\<close>: a string is quoted with the escapes of the JSON grammar, a
  property holding \<^verbatim>\<open>undefined\<close> is left out, and the members are indented by two spaces.
\<close>

definition hex_digit :: "nat \<Rightarrow> char" where
  "hex_digit n = ''0123456789abcdef'' ! (n mod 16)"

definition UnicodeEscape :: "char \<Rightarrow> string" where
  "UnicodeEscape c =
     [CHR 0x5C, CHR ''u'', CHR ''0'', CHR ''0'',
      hex_digit (of_char c div 16), hex_digit (of_char c mod 16)]"

definition quote_char :: "char \<Rightarrow> string" where
  "quote_char c =
     (if c = CHR 0x08 then [CHR 0x5C, CHR ''b'']
      else if c = CHR 0x09 then [CHR 0x5C, CHR ''t'']
      else if c = CHR 0x0A then [CHR 0x5C, CHR ''n'']
      else if c = CHR 0x0C then [CHR 0x5C, CHR ''f'']
      else if c = CHR 0x0D then [CHR 0x5C, CHR ''r'']
      else if c = CHR 0x22 then [CHR 0x5C, CHR 0x22]
      else if c = CHR 0x5C then [CHR 0x5C, CHR 0x5C]
      else if (of_char c :: nat) < 0x20 then UnicodeEscape c
      else [c])"

definition QuoteJSONString :: "string \<Rightarrow> string" where
  "QuoteJSONString v = CHR 0x22 # concat (map quote_char v) @ [CHR 0x22]"

fun SerializeJSONProperty :: "jsval \<Rightarrow> string option" where
  "SerializeJSONProperty Undefined = None"
| "SerializeJSONProperty Null = Some ''null''"
| "SerializeJSONProperty (Str v) = Some (QuoteJSONString v)"

definition SerializeJSONObject :: "(string \<times> jsval) list \<Rightarrow> string" where
  "SerializeJSONObject props =
     (let partial =
            List.map_filter
              (\<lambda>(k, v). map_option (\<lambda>strP. QuoteJSONString k @ '': '' @ strP)
                           (SerializeJSONProperty v))
              props;
          separator = CHR '','' # CHR 0x0A # ''  ''
      in if partial = [] then ''{}''
         else CHR ''{'' # CHR 0x0A # ''  '' @ join partial separator @ [CHR 0x0A, CHR ''}''])"

text \<open>
  The own properties of the record, in the order the object literal lists them.
  \<^verbatim>\<open>Date.prototype.toISOString\<close> is a parameter.
\<close>

definition properties :: "(timestamp \<Rightarrow> string) \<Rightarrow> SanctuaryState \<Rightarrow> (string \<times> jsval) list" where
  "properties toISOString s =
     [(''mood'', mood s), (''location'', location s), (''thought'', thought s),
      (''action'', action s),
      (''focus'', case focus s of None \<Rightarrow> Null | Some f \<Rightarrow> Str f),
      (''last_updated'', case last_updated s of None \<Rightarrow> Null | Some t \<Rightarrow> Str (toISOString t))]"

definition getState :: "(timestamp \<Rightarrow> string) \<Rightarrow> SanctuaryState \<Rightarrow> string \<times> SanctuaryState" where
  "getState toISOString s = (SerializeJSONObject (properties toISOString s), s)"

subsection \<open>Reading the serialization back\<close>

text \<open>
  The definitions of this subsection are not part of the program. They read a quoted
  string back and name the members that the serialization prints; the proofs use them
  to show that the text of \<open>getState\<close> determines every field of the record.
\<close>

definition hex_value :: "char \<Rightarrow> nat option" where
  "hex_value =
     map_of
       [(CHR ''0'', 0), (CHR ''1'', 1), (CHR ''2'', 2), (CHR ''3'', 3), (CHR ''4'', 4),
        (CHR ''5'', 5), (CHR ''6'', 6), (CHR ''7'', 7), (CHR ''8'', 8), (CHR ''9'', 9),
        (CHR ''a'', 10), (CHR ''b'', 11), (CHR ''c'', 12), (CHR ''d'', 13), (CHR ''e'', 14),
        (CHR ''f'', 15)]"

definition escaped :: "char \<Rightarrow> char option" where
  "escaped e =
     (if e = CHR ''b'' then Some (CHR 0x08)
      else if e = CHR ''t'' then Some (CHR 0x09)
      else if e = CHR ''n'' then Some (CHR 0x0A)
      else if e = CHR ''f'' then Some (CHR 0x0C)
      else if e = CHR ''r'' then Some (CHR 0x0D)
      else if e = CHR 0x22 then Some (CHR 0x22)
      else if e = CHR 0x5C then Some (CHR 0x5C)
      else None)"

fun unescape :: "string \<Rightarrow> (string \<times> string) option" where
  "unescape [] = None"
| "unescape (c # cs) =
     (if c = CHR 0x22 then Some ([], cs)
      else if c \<noteq> CHR 0x5C then map_option (apfst ((#) c)) (unescape cs)
      else case cs of
             [] \<Rightarrow> None
           | e # cs1 \<Rightarrow>
               if e = CHR ''u'' then
                 (case cs1 of
                    z1 # z2 # h # l # cs2 \<Rightarrow>
                      (case (hex_value h, hex_value l) of
                         (Some x, Some y) \<Rightarrow>
                           map_option (apfst ((#) (char_of (16 * x + y)))) (unescape cs2)
                       | _ \<Rightarrow> None)
                  | _ \<Rightarrow> None)
               else (case escaped e of
                       Some d \<Rightarrow> map_option (apfst ((#) d)) (unescape cs1)
                     | None \<Rightarrow> None))"

definition present :: "string \<times> jsval \<Rightarrow> bool" where
  "present m \<longleftrightarrow> snd m \<noteq> Undefined"

definition member_text :: "string \<times> jsval \<Rightarrow> string" where
  "member_text m =
     QuoteJSONString (fst m) @ '': '' @
       (case snd m of Undefined \<Rightarrow> [] | Null \<Rightarrow> ''null'' | Str v \<Rightarrow> QuoteJSONString v)"

section \<open>Sequences of handler calls\<close>

text \<open>
  The record is private to the module: it changes only through the five handlers. A
  history is a list of handler calls, each with the clock reading of its moment.
\<close>

datatype op = SetMood jsval | MoveTo jsval | Think jsval | SetAction jsval | GetState

fun handler ::
  "(timestamp \<Rightarrow> string) \<Rightarrow> timestamp \<Rightarrow> op \<Rightarrow> SanctuaryState \<Rightarrow> string \<times> SanctuaryState" where
  "handler toISO now (SetMood v) s = setMood now v s"
| "handler toISO now (MoveTo v) s = moveTo now v s"
| "handler toISO now (Think v) s = think now v s"
| "handler toISO now (SetAction v) s = setAction now v s"
| "handler toISO now GetState s = getState toISO s"

fun run ::
  "(timestamp \<Rightarrow> string) \<Rightarrow> (timestamp \<times> op) list \<Rightarrow> SanctuaryState \<Rightarrow> SanctuaryState" where
  "run toISO [] s = s"
| "run toISO ((now, c) # rest) s = run toISO rest (snd (handler toISO now c s))"

section \<open>Tool-call adapter\<close>

text \<open>
  \<^verbatim>\<open>request.params\<close> holds the tool name and an optional arguments object. A JSON object
  is a map from property names to values; reading a missing property gives
  \<^verbatim>\<open>undefined\<close>, and so does \<^verbatim>\<open>args?.p\<close> when \<^verbatim>\<open>args\<close> itself is missing.
\<close>

type_synonym json_object = "string \<rightharpoonup> jsval"

definition get_property :: "json_object \<Rightarrow> string \<Rightarrow> jsval" where
  "get_property obj p = (case obj p of None \<Rightarrow> Undefined | Some v \<Rightarrow> v)"

definition optional_property :: "json_object option \<Rightarrow> string \<Rightarrow> jsval" where
  "optional_property args p = (case args of None \<Rightarrow> Undefined | Some obj \<Rightarrow> get_property obj p)"

record CallToolParams =
  name :: string
  arguments :: "json_object option"

datatype content = Text string

definition call_tool ::
  "(timestamp \<Rightarrow> string) \<Rightarrow> timestamp \<Rightarrow> CallToolParams \<Rightarrow> SanctuaryState
     \<Rightarrow> content list \<times> SanctuaryState" where
  "call_tool toISO now params s =
     (let args = arguments params in
      if name params = ''set_mood'' then
        (let (text, s') = setMood now (optional_property args ''mood'') s in ([Text text], s'))
      else if name params = ''move_to'' then
        (let (text, s') = moveTo now (optional_property args ''location'') s in ([Text text], s'))
      else if name params = ''think'' then
        (let (text, s') = think now (optional_property args ''thought'') s in ([Text text], s'))
      else if name params = ''set_action'' then
        (let (text, s') = setAction now (optional_property args ''action'') s in ([Text text], s'))
      else if name params = ''get_state'' then
        (let (text, s') = getState toISO s in ([Text text], s'))
      else ([Text (''Unknown tool: '' @ name params)], s))"

section \<open>HTTP adapter\<close>

text \<open>
  \<^verbatim>\<open>AUTH_TOKEN = process.env.SANCTUARY_AUTH_TOKEN || ""\<close>: the argument is the environment
  variable, absent or a string.
\<close>

definition AUTH_TOKEN :: "string option \<Rightarrow> string" where
  "AUTH_TOKEN env = (case env of None \<Rightarrow> [] | Some t \<Rightarrow> if t = [] then [] else t)"

text \<open>
  Of a request the routes read the \<^verbatim>\<open>authorization\<close> header and the parsed body. The
  body is absent when the JSON middleware parsed none; reading a property of it then
  throws.
\<close>

record Request =
  authorization :: "string option"
  body :: "json_object option"

definition startsWith :: "string \<Rightarrow> string \<Rightarrow> bool" where
  "startsWith str searchString = (take (length searchString) str = searchString)"

definition slice :: "nat \<Rightarrow> string \<Rightarrow> string" where
  "slice start str = drop start str"

definition checkAuth :: "string option \<Rightarrow> Request \<Rightarrow> bool" where
  "checkAuth env req =
     (let authHeader = (case authorization req of None \<Rightarrow> [] | Some h \<Rightarrow> if h = [] then [] else h)
      in if startsWith authHeader ''Bearer '' then slice 7 authHeader = AUTH_TOKEN env
         else False)"

datatype js_error = TypeError

datatype json_body = Error_body string | Result_body string

record Response =
  status :: nat
  json :: json_body

type_synonym route_result = "(js_error + Response) \<times> SanctuaryState"

definition post_set_mood ::
  "string option \<Rightarrow> timestamp \<Rightarrow> Request \<Rightarrow> SanctuaryState \<Rightarrow> route_result" where
  "post_set_mood env now req s =
     (if AUTH_TOKEN env \<noteq> [] \<and> \<not> checkAuth env req
      then (Inr \<lparr>status = 401, json = Error_body ''Unauthorized''\<rparr>, s)
      else case body req of
             None \<Rightarrow> (Inl TypeError, s)
           | Some b \<Rightarrow>
               (let (result, s') = setMood now (get_property b ''mood'') s
                in (Inr \<lparr>status = 200, json = Result_body result\<rparr>, s')))"

definition post_move_to ::
  "string option \<Rightarrow> timestamp \<Rightarrow> Request \<Rightarrow> SanctuaryState \<Rightarrow> route_result" where
  "post_move_to env now req s =
     (if AUTH_TOKEN env \<noteq> [] \<and> \<not> checkAuth env req
      then (Inr \<lparr>status = 401, json = Error_body ''Unauthorized''\<rparr>, s)
      else case body req of
             None \<Rightarrow> (Inl TypeError, s)
           | Some b \<Rightarrow>
               (let (result, s') = moveTo now (get_property b ''location'') s
                in (Inr \<lparr>status = 200, json = Result_body result\<rparr>, s')))"

definition post_think ::
  "string option \<Rightarrow> timestamp \<Rightarrow> Request \<Rightarrow> SanctuaryState \<Rightarrow> route_result" where
  "post_think env now req s =
     (if AUTH_TOKEN env \<noteq> [] \<and> \<not> checkAuth env req
      then (Inr \<lparr>status = 401, json = Error_body ''Unauthorized''\<rparr>, s)
      else case body req of
             None \<Rightarrow> (Inl TypeError, s)
           | Some b \<Rightarrow>
               (let (result, s') = think now (get_property b ''thought'') s
                in (Inr \<lparr>status = 200, json = Result_body result\<rparr>, s')))"

section \<open>The invariant of the record\<close>

text \<open>
  A state is valid when the membership tests of the source accept its mood and its
  location.
\<close>

definition valid_state :: "SanctuaryState \<Rightarrow> bool" where
  "valid_state s \<longleftrightarrow>
     array_includes VALID_MOODS (mood s) \<and> array_includes VALID_LOCATIONS (location s)"

section \<open>Basic facts\<close>

lemma join_VALID_MOODS:
  "join VALID_MOODS '', '' =
     ''focused, contemplative, restless, content, tired, curious, affectionate, neutral''"
  by (simp add: VALID_MOODS_def)

lemma join_VALID_LOCATIONS:
  "join VALID_LOCATIONS '', '' = ''desk, window, couch, kitchen, bookshelf, center''"
  by (simp add: VALID_LOCATIONS_def)

lemma array_includes_iff: "array_includes xs v \<longleftrightarrow> v \<in> Str ` set xs"
  by (cases v) auto

subsection \<open>The state after each handler\<close>

lemma setMood_state:
  "snd (setMood now v s) =
     (if array_includes VALID_MOODS v then s\<lparr>mood := v, last_updated := Some now\<rparr> else s)"
  by (simp add: setMood_def)

lemma moveTo_state:
  "snd (moveTo now v s) =
     (if array_includes VALID_LOCATIONS v then s\<lparr>location := v, last_updated := Some now\<rparr>
      else s)"
  by (simp add: moveTo_def)

lemma think_state: "snd (think now v s) = s\<lparr>thought := v, last_updated := Some now\<rparr>"
  by (simp add: think_def)

lemma setAction_state: "snd (setAction now v s) = s\<lparr>action := v, last_updated := Some now\<rparr>"
  by (simp add: setAction_def)

lemma getState_state: "snd (getState toISO s) = s"
  by (simp add: getState_def)

lemmas handler_state = setMood_state moveTo_state think_state setAction_state getState_state

subsection \<open>Validity along a history\<close>

lemma initial_valid: "valid_state initial_state"
  by (simp add: valid_state_def initial_state_def VALID_MOODS_def VALID_LOCATIONS_def)

lemma handler_valid: "valid_state s \<Longrightarrow> valid_state (snd (handler toISO now c s))"
  by (cases c) (simp_all add: handler_state valid_state_def)

lemma run_valid: "valid_state s \<Longrightarrow> valid_state (run toISO hist s)"
  by (induction hist arbitrary: s) (auto simp: handler_valid)

subsection \<open>The stamp never runs ahead of a clock that does not run backwards\<close>

lemma handler_stamp:
  "last_updated (snd (handler toISO now c s)) = last_updated s \<or>
   last_updated (snd (handler toISO now c s)) = Some now"
  by (cases c) (simp_all add: handler_state)

lemma run_stamp_le:
  "sorted (map fst hist @ [now]) \<Longrightarrow> last_updated s \<le> Some now
     \<Longrightarrow> last_updated (run toISO hist s) \<le> Some now"
proof (induction hist arbitrary: s)
  case Nil
  then show ?case by simp
next
  case (Cons e hist)
  obtain t c where e: "e = (t, c)" by (cases e)
  from Cons.prems(1) e have "t \<le> now" and rest: "sorted (map fst hist @ [now])"
    by (auto simp: sorted_append)
  with Cons.prems(2) handler_stamp [of toISO t c s]
  have "last_updated (snd (handler toISO t c s)) \<le> Some now"
    by auto
  with rest show ?case
    using Cons.IH e by simp
qed

subsection \<open>The stamp is the clock reading\<close>

text \<open>
  An accepted call stores the reading of the wall clock, whatever the stamp before it:
  the stamps are ordered as the clock readings are. With a clock that was set back
  between two calls the later stamp is the earlier instant.
\<close>

lemma accepted_stamp_is_clock_reading:
  "array_includes VALID_MOODS v \<Longrightarrow> last_updated (snd (setMood now v s)) = Some now"
  "array_includes VALID_LOCATIONS v \<Longrightarrow> last_updated (snd (moveTo now v s)) = Some now"
  "last_updated (snd (think now v s)) = Some now"
  "last_updated (snd (setAction now v s)) = Some now"
  by (simp_all add: handler_state)

lemma stamp_with_clock_set_back:
  "last_updated
     (run toISO [(5, SetMood (Str ''curious'')), (3, SetMood (Str ''tired''))] initial_state)
   = Some 3"
  by (simp add: setMood_def VALID_MOODS_def)

subsection \<open>The scenario of the specification\<close>

lemma startup_scenario:
  "run toISO [(1, SetMood (Str ''curious'')), (2, MoveTo (Str ''window'')), (3, GetState)]
     initial_state =
   \<lparr>mood = Str ''curious'', location = Str ''window'', thought = Str [],
    action = Str ''initializing'', focus = None, last_updated = Some 2\<rparr>"
  by (simp add: setMood_def moveTo_def getState_def VALID_MOODS_def VALID_LOCATIONS_def
      initial_state_def)

subsection \<open>The description table\<close>

lemma description_of_member:
  "l \<in> set VALID_LOCATIONS \<Longrightarrow> map_of LOCATION_DESCRIPTIONS l = Some (description_of (Str l))"
  by (auto simp: VALID_LOCATIONS_def LOCATION_DESCRIPTIONS_def description_of_def)

subsection \<open>The bearer check\<close>

lemma bearer_split: "(take 7 h = ''Bearer '' \<and> drop 7 h = t) \<longleftrightarrow> h = ''Bearer '' @ t"
proof
  assume "take 7 h = ''Bearer '' \<and> drop 7 h = t"
  then have "take 7 h @ drop 7 h = ''Bearer '' @ t" by (simp only:)
  then show "h = ''Bearer '' @ t" by (simp only: append_take_drop_id)
next
  assume "h = ''Bearer '' @ t"
  then show "take 7 h = ''Bearer '' \<and> drop 7 h = t" by simp
qed

lemma startsWith_Bearer: "startsWith h ''Bearer '' \<longleftrightarrow> take 7 h = ''Bearer ''"
proof -
  have "length ''Bearer '' = 7" by simp
  then show ?thesis unfolding startsWith_def by (simp only:)
qed

lemma checkAuth_iff:
  "checkAuth env req \<longleftrightarrow> authorization req = Some (''Bearer '' @ AUTH_TOKEN env)"
proof (cases "authorization req")
  case None
  then show ?thesis by (simp add: checkAuth_def startsWith_def)
next
  case (Some h)
  have "checkAuth env req \<longleftrightarrow> (take 7 h = ''Bearer '' \<and> drop 7 h = AUTH_TOKEN env)"
    using Some unfolding checkAuth_def startsWith_Bearer slice_def
    by (cases "h = []") auto
  with Some show ?thesis
    by (simp only: bearer_split option.inject)
qed

lemma AUTH_TOKEN_None: "AUTH_TOKEN None = []"
  by (simp add: AUTH_TOKEN_def)

subsection \<open>The routes before and after the check\<close>

lemma post_set_mood_open:
  "AUTH_TOKEN env = [] \<or> checkAuth env req \<Longrightarrow>
     post_set_mood env now req s =
        (case body req of
           None \<Rightarrow> (Inl TypeError, s)
         | Some b \<Rightarrow>
             (Inr \<lparr>status = 200, json = Result_body (fst (setMood now (get_property b ''mood'') s))\<rparr>,
              snd (setMood now (get_property b ''mood'') s)))"
  unfolding post_set_mood_def by (cases "body req") (auto simp: case_prod_beta)

lemma post_move_to_open:
  "AUTH_TOKEN env = [] \<or> checkAuth env req \<Longrightarrow>
     post_move_to env now req s =
        (case body req of
           None \<Rightarrow> (Inl TypeError, s)
         | Some b \<Rightarrow>
             (Inr \<lparr>status = 200, json = Result_body (fst (moveTo now (get_property b ''location'') s))\<rparr>,
              snd (moveTo now (get_property b ''location'') s)))"
  unfolding post_move_to_def by (cases "body req") (auto simp: case_prod_beta)

lemma post_think_open:
  "AUTH_TOKEN env = [] \<or> checkAuth env req \<Longrightarrow>
     post_think env now req s =
        (case body req of
           None \<Rightarrow> (Inl TypeError, s)
         | Some b \<Rightarrow>
             (Inr \<lparr>status = 200, json = Result_body (fst (think now (get_property b ''thought'') s))\<rparr>,
              snd (think now (get_property b ''thought'') s)))"
  unfolding post_think_def by (cases "body req") (auto simp: case_prod_beta)

lemma post_open_not_401:
  assumes "AUTH_TOKEN env = [] \<or> checkAuth env req"
  shows "fst (post_set_mood env now req s) \<noteq> Inr \<lparr>status = 401, json = Error_body ''Unauthorized''\<rparr>"
    and "fst (post_move_to env now req s) \<noteq> Inr \<lparr>status = 401, json = Error_body ''Unauthorized''\<rparr>"
    and "fst (post_think env now req s) \<noteq> Inr \<lparr>status = 401, json = Error_body ''Unauthorized''\<rparr>"
  unfolding post_set_mood_open [OF assms] post_move_to_open [OF assms] post_think_open [OF assms]
  by (cases "body req"; simp)+

lemma post_closed:
  assumes "AUTH_TOKEN env \<noteq> []" and "\<not> checkAuth env req"
  shows "post_set_mood env now req s = (Inr \<lparr>status = 401, json = Error_body ''Unauthorized''\<rparr>, s)"
    and "post_move_to env now req s = (Inr \<lparr>status = 401, json = Error_body ''Unauthorized''\<rparr>, s)"
    and "post_think env now req s = (Inr \<lparr>status = 401, json = Error_body ''Unauthorized''\<rparr>, s)"
  using assms by (simp_all add: post_set_mood_def post_move_to_def post_think_def)

subsection \<open>The serialization loses nothing\<close>

lemma hex_value_digit: "n < 16 \<Longrightarrow> hex_value (hex_digit n) = Some n"
proof -
  assume "n < 16"
  then have "n \<in> {0,1,2,3,4,5,6,7,8,9,10,11,12,13,14,15}"
    by (simp only: insert_iff empty_iff) arith
  then show ?thesis
    unfolding hex_value_def hex_digit_def
    by (elim insertE emptyE) simp_all
qed

lemma unescape_dq: "unescape (CHR 0x22 # r) = Some ([], r)"
  by simp

lemma unescape_plain:
  "c \<noteq> CHR 0x22 \<Longrightarrow> c \<noteq> CHR 0x5C \<Longrightarrow>
     unescape (c # r) = map_option (apfst ((#) c)) (unescape r)"
  by simp

lemma unescape_two:
  "e \<noteq> CHR ''u'' \<Longrightarrow> escaped e = Some c \<Longrightarrow>
     unescape (CHR 0x5C # e # r) = map_option (apfst ((#) c)) (unescape r)"
  by simp

lemma unescape_unicode:
  assumes "(of_char c :: nat) < 0x20"
  shows "unescape (UnicodeEscape c @ r) = map_option (apfst ((#) c)) (unescape r)"
proof -
  let ?k = "of_char c :: nat"
  have "?k div 16 < 16" "?k mod 16 < 16" using assms by simp_all
  then have h: "hex_value (hex_digit (?k div 16)) = Some (?k div 16)"
    "hex_value (hex_digit (?k mod 16)) = Some (?k mod 16)"
    by (simp_all only: hex_value_digit)
  have "char_of (16 * (?k div 16) + ?k mod 16) = c" by simp
  with h show ?thesis
    by (simp add: UnicodeEscape_def)
qed

lemma unescape_quote_char:
  "unescape (quote_char c @ r) = map_option (apfst ((#) c)) (unescape r)"
proof (cases "c \<in> {CHR 0x08, CHR 0x09, CHR 0x0A, CHR 0x0C, CHR 0x0D, CHR 0x22, CHR 0x5C}")
  case True
  then show ?thesis
    by (elim insertE emptyE) (simp_all add: quote_char_def escaped_def)
next
  case False
  then have q: "quote_char c = (if (of_char c :: nat) < 0x20 then UnicodeEscape c else [c])"
    by (simp add: quote_char_def)
  show ?thesis
  proof (cases "(of_char c :: nat) < 0x20")
    case True
    with q show ?thesis by (simp only: unescape_unicode if_True)
  next
    case False
    with q \<open>c \<notin> _\<close> show ?thesis by (simp del: unescape.simps add: unescape_plain)
  qed
qed

lemma unescape_quoted:
  "unescape (concat (map quote_char v) @ CHR 0x22 # r) = Some (v, r)"
  by (induction v) (simp_all add: unescape_quote_char unescape_dq del: unescape.simps)

lemma quoted_body_inj:
  assumes "concat (map quote_char a) @ CHR 0x22 # r = concat (map quote_char b) @ CHR 0x22 # r'"
  shows "a = b \<and> r = r'"
proof -
  from assms have "unescape (concat (map quote_char a) @ CHR 0x22 # r)
      = unescape (concat (map quote_char b) @ CHR 0x22 # r')"
    by (simp only:)
  then show ?thesis
    by (simp only: unescape_quoted option.inject prod.inject)
qed

lemma QuoteJSONString_inj:
  assumes "QuoteJSONString a @ r = QuoteJSONString b @ r'"
  shows "a = b \<and> r = r'"
  using assms by (intro quoted_body_inj) (simp add: QuoteJSONString_def)

lemma partial_members:
  "List.map_filter
     (\<lambda>(k, v). map_option (\<lambda>strP. QuoteJSONString k @ '': '' @ strP) (SerializeJSONProperty v))
     props = map member_text (filter present props)"
proof (induction props)
  case Nil
  then show ?case by (simp add: List.map_filter_simps)
next
  case (Cons m props)
  obtain k v where m: "m = (k, v)" by (cases m)
  show ?case
    using Cons.IH unfolding m
    by (cases v) (simp_all add: List.map_filter_simps present_def member_text_def)
qed

lemma SerializeJSONObject_members:
  "SerializeJSONObject props =
     (if filter present props = [] then ''{}''
      else CHR ''{'' # CHR 0x0A # ''  '' @
           join (map member_text (filter present props)) (CHR '','' # CHR 0x0A # ''  '') @
           [CHR 0x0A, CHR ''}''])"
  unfolding SerializeJSONObject_def partial_members Let_def by simp

lemma member_text_inj:
  assumes "present m" and "present m'" and "member_text m @ r = member_text m' @ r'"
  shows "m = m' \<and> r = r'"
proof -
  obtain k v k' v' where m: "m = (k, v)" "m' = (k', v')"
    by (cases m, cases m')
  let ?t = "\<lambda>v. (case v of Undefined \<Rightarrow> [] | Null \<Rightarrow> ''null'' | Str v \<Rightarrow> QuoteJSONString v)"
  from assms(3) have "QuoteJSONString k @ ('': '' @ ?t v @ r) = QuoteJSONString k' @ ('': '' @ ?t v' @ r')"
    by (simp add: member_text_def m)
  then have k: "k = k'" and "'': '' @ ?t v @ r = '': '' @ ?t v' @ r'"
    by (auto dest: QuoteJSONString_inj)
  then have v: "?t v @ r = ?t v' @ r'" by simp
  from assms(1,2) have "v \<noteq> Undefined" "v' \<noteq> Undefined"
    by (simp_all add: present_def m)
  with v have "v = v' \<and> r = r'"
    by (cases v; cases v') (auto simp: QuoteJSONString_def dest: quoted_body_inj)
  with k m show ?thesis by simp
qed

lemma join_members_inj:
  assumes "\<forall>m \<in> set ps. present m" and "\<forall>m \<in> set ps'. present m"
    and "ps \<noteq> []" and "ps' \<noteq> []"
    and "join (map member_text ps) (CHR '','' # CHR 0x0A # ''  '') @ [CHR 0x0A, CHR ''}'']
       = join (map member_text ps') (CHR '','' # CHR 0x0A # ''  '') @ [CHR 0x0A, CHR ''}'']"
  shows "ps = ps'"
  using assms
proof (induction ps arbitrary: ps')
  case Nil
  then show ?case by simp
next
  case (Cons m rest)
  let ?sep = "CHR '','' # CHR 0x0A # ''  ''"
  let ?tail = "\<lambda>xs. if xs = [] then [CHR 0x0A, CHR ''}'']
     else ?sep @ join (map member_text xs) ?sep @ [CHR 0x0A, CHR ''}'']"
  have unfold: "join (map member_text (x # xs)) ?sep @ [CHR 0x0A, CHR ''}'']
      = member_text x @ ?tail xs" for x xs
    by (cases xs) simp_all
  from Cons.prems(4) obtain m' rest' where ps': "ps' = m' # rest'"
    by (cases ps') auto
  from Cons.prems(5) have eq: "member_text m @ ?tail rest = member_text m' @ ?tail rest'"
    unfolding ps' unfold .
  from Cons.prems(1,2) have "present m" "present m'"
    by (simp_all add: ps')
  from member_text_inj [OF this eq] have m: "m = m'" and tl: "?tail rest = ?tail rest'"
    by simp_all
  show ?case
  proof (cases "rest = []")
    case True
    with tl have "rest' = []" by (auto split: if_splits)
    with True m ps' show ?thesis by simp
  next
    case False
    with tl have ne: "rest' \<noteq> []" by (auto split: if_splits)
    with False tl have "join (map member_text rest) ?sep @ [CHR 0x0A, CHR ''}'']
        = join (map member_text rest') ?sep @ [CHR 0x0A, CHR ''}'']"
      by simp
    with Cons.IH [of rest'] Cons.prems(1,2) False ne have "rest = rest'"
      by (simp add: ps')
    with m ps' show ?thesis by simp
  qed
qed

lemma SerializeJSONObject_inj:
  assumes "SerializeJSONObject props = SerializeJSONObject props'"
  shows "filter present props = filter present props'"
proof (cases "filter present props = []")
  case True
  with assms show ?thesis
    by (auto simp: SerializeJSONObject_members split: if_splits)
next
  case False
  with assms have ne: "filter present props' \<noteq> []"
    by (auto simp: SerializeJSONObject_members split: if_splits)
  with False assms
  have "join (map member_text (filter present props)) (CHR '','' # CHR 0x0A # ''  '') @ [CHR 0x0A, CHR ''}'']
       = join (map member_text (filter present props')) (CHR '','' # CHR 0x0A # ''  '') @ [CHR 0x0A, CHR ''}'']"
    by (simp add: SerializeJSONObject_members)
  with False ne show ?thesis
    by (intro join_members_inj) simp_all
qed

lemma map_of_present:
  "distinct (map fst props) \<Longrightarrow>
     map_of (filter present props) k =
       (case map_of props k of None \<Rightarrow> None | Some v \<Rightarrow> if v = Undefined then None else Some v)"
proof (induction props)
  case Nil
  then show ?case by simp
next
  case (Cons m props)
  obtain k' v where m: "m = (k', v)" by (cases m)
  from Cons.prems have "k' \<notin> fst ` set props" by (simp add: m)
  then have "map_of props k' = None" by (simp add: map_of_eq_None_iff)
  with Cons show ?case
    by (auto simp: m present_def split: option.splits)
qed

lemma property_of_present:
  assumes "filter present (properties toISO s) = filter present (properties toISO s')"
  shows "mood s = mood s' \<and> location s = location s' \<and> thought s = thought s' \<and>
     action s = action s' \<and> focus s = focus s' \<and>
     map_option toISO (last_updated s) = map_option toISO (last_updated s')"
proof -
  have d: "distinct (map fst (properties toISO r))" for r
    by (simp add: properties_def)
  have "map_of (filter present (properties toISO s)) k
      = map_of (filter present (properties toISO s')) k" for k
    by (simp only: assms)
  then have eq: "(case map_of (properties toISO s) k of None \<Rightarrow> None
                   | Some v \<Rightarrow> if v = Undefined then None else Some v)
      = (case map_of (properties toISO s') k of None \<Rightarrow> None
          | Some v \<Rightarrow> if v = Undefined then None else Some v)" for k
    by (simp only: map_of_present [OF d])
  have "mood s = mood s'"
    using eq [of "''mood''"] by (simp add: properties_def split: if_splits)
  moreover have "location s = location s'"
    using eq [of "''location''"] by (simp add: properties_def split: if_splits)
  moreover have "thought s = thought s'"
    using eq [of "''thought''"] by (simp add: properties_def split: if_splits)
  moreover have "action s = action s'"
    using eq [of "''action''"] by (simp add: properties_def split: if_splits)
  moreover have "focus s = focus s'"
    using eq [of "''focus''"] by (simp add: properties_def split: if_splits option.splits)
  moreover have "map_option toISO (last_updated s) = map_option toISO (last_updated s')"
    using eq [of "''last_updated''"] by (simp add: properties_def split: if_splits option.splits)
  ultimately show ?thesis by simp
qed

section \<open>Mood and location stay in their fixed sets\<close>

text \<open>
  Claim C1. Whatever calls of the five handlers are made from the startup record, with
  whatever arguments (strings among them), the mood is one of the eight strings of
  \<^const>\<open>VALID_MOODS\<close> and the location one of the six strings of
  \<^const>\<open>VALID_LOCATIONS\<close>.
\<close>

theorem mood_location_in_fixed_sets:
  "mood (run toISO hist initial_state) \<in> Str ` set VALID_MOODS \<and>
   location (run toISO hist initial_state) \<in> Str ` set VALID_LOCATIONS \<and>
   length VALID_MOODS = 8 \<and> distinct VALID_MOODS \<and>
   length VALID_LOCATIONS = 6 \<and> distinct VALID_LOCATIONS"
proof -
  have "valid_state (run toISO hist initial_state)"
    by (rule run_valid [OF initial_valid])
  then have "mood (run toISO hist initial_state) \<in> Str ` set VALID_MOODS"
    and "location (run toISO hist initial_state) \<in> Str ` set VALID_LOCATIONS"
    by (simp_all add: valid_state_def array_includes_iff)
  moreover have "length VALID_MOODS = 8 \<and> distinct VALID_MOODS"
    by (simp add: VALID_MOODS_def)
  moreover have "length VALID_LOCATIONS = 6 \<and> distinct VALID_LOCATIONS"
    by (simp add: VALID_LOCATIONS_def)
  ultimately show ?thesis by simp
qed

section \<open>Setting the mood\<close>

text \<open>
  Claim C2, as stated, says that an accepted \<open>setMood\<close> call leaves a stamp that is not
  earlier than the previous one. The handler stores the reading of the wall clock and
  compares it with nothing: after an accepted call at instant 5, an accepted call whose
  clock reads 3 replaces the stamp 5 by the stamp 3.
\<close>

theorem setMood_stamp_order_counterexample:
  "''curious'' \<in> set VALID_MOODS \<and> ''tired'' \<in> set VALID_MOODS \<and>
   last_updated (snd (setMood 5 (Str ''curious'') initial_state)) = Some 5 \<and>
   last_updated
     (snd (setMood 3 (Str ''tired'') (snd (setMood 5 (Str ''curious'') initial_state))))
     = Some 3 \<and>
   \<not> last_updated (snd (setMood 5 (Str ''curious'') initial_state))
       \<le> last_updated
           (snd (setMood 3 (Str ''tired'') (snd (setMood 5 (Str ''curious'') initial_state))))"
  by (simp add: setMood_state VALID_MOODS_def)

text \<open>
  Claim C2, amended. Called with a string of the mood set, in any state, \<open>setMood\<close>
  stores exactly that string as the mood, sets \<open>last_updated\<close> to the clock reading of
  the call, changes nothing else and returns \<^verbatim>\<open>Mood shifted from <old> to <new>\<close>. The
  new stamp is not earlier than the previous one exactly when the clock reading of the
  call is not earlier than the previous stamp; this is so, in the state that a history
  of handler calls has produced, whenever the clock readings of the history and of the
  call never decrease.
\<close>

theorem setMood_accepts_member:
  assumes "m \<in> set VALID_MOODS"
  shows "setMood now (Str m) s =
           (''Mood shifted from '' @ to_string (mood s) @ '' to '' @ m,
            s\<lparr>mood := Str m, last_updated := Some now\<rparr>) \<and>
         (last_updated s \<le> last_updated (snd (setMood now (Str m) s)))
           = (last_updated s \<le> Some now) \<and>
         (sorted (map fst hist @ [now]) \<longrightarrow>
            last_updated (run toISO hist initial_state)
              \<le> last_updated (snd (setMood now (Str m) (run toISO hist initial_state))))"
proof (intro conjI impI)
  from assms show "setMood now (Str m) s =
           (''Mood shifted from '' @ to_string (mood s) @ '' to '' @ m,
            s\<lparr>mood := Str m, last_updated := Some now\<rparr>)"
    by (simp add: setMood_def)
next
  from assms show "(last_updated s \<le> last_updated (snd (setMood now (Str m) s)))
      = (last_updated s \<le> Some now)"
    by (simp add: setMood_state)
next
  assume "sorted (map fst hist @ [now])"
  then have "last_updated (run toISO hist initial_state) \<le> Some now"
    by (rule run_stamp_le) (simp add: initial_state_def)
  with assms show "last_updated (run toISO hist initial_state)
      \<le> last_updated (snd (setMood now (Str m) (run toISO hist initial_state)))"
    by (simp add: setMood_state)
qed

theorem setMood_accepts_member_witness:
  "''curious'' \<in> set VALID_MOODS \<and>
   sorted (map fst [(3, Think (Str ''hello'')), (4, GetState)] @ [5 :: nat]) \<and>
   run (\<lambda>t. ''T'') [(3, Think (Str ''hello'')), (4, GetState)] initial_state =
     \<lparr>mood = Str ''neutral'', location = Str ''desk'', thought = Str ''hello'',
      action = Str ''initializing'', focus = None, last_updated = Some 3\<rparr> \<and>
   setMood 5 (Str ''curious'')
       \<lparr>mood = Str ''neutral'', location = Str ''desk'', thought = Str ''hello'',
        action = Str ''initializing'', focus = None, last_updated = Some 3\<rparr> =
     (''Mood shifted from neutral to curious'',
      \<lparr>mood = Str ''curious'', location = Str ''desk'', thought = Str ''hello'',
       action = Str ''initializing'', focus = None, last_updated = Some 5\<rparr>) \<and>
   Some 3 \<le> Some (5 :: nat) \<and>
   Some 3 \<le> last_updated
     (snd (setMood 5 (Str ''curious'')
        \<lparr>mood = Str ''neutral'', location = Str ''desk'', thought = Str ''hello'',
         action = Str ''initializing'', focus = None, last_updated = Some 3\<rparr>))"
proof -
  have m: "''curious'' \<in> set VALID_MOODS"
    by (simp add: VALID_MOODS_def)
  have c: "sorted (map fst [(3, Think (Str ''hello'')), (4, GetState)] @ [5 :: nat])"
    by simp
  have r: "run (\<lambda>t. ''T'') [(3, Think (Str ''hello'')), (4, GetState)] initial_state =
      \<lparr>mood = Str ''neutral'', location = Str ''desk'', thought = Str ''hello'',
       action = Str ''initializing'', focus = None, last_updated = Some 3\<rparr>"
    by (simp add: think_def getState_def initial_state_def)
  from setMood_accepts_member [OF m, of 5
      "\<lparr>mood = Str ''neutral'', location = Str ''desk'', thought = Str ''hello'',
        action = Str ''initializing'', focus = None, last_updated = Some 3\<rparr>"
      "[(3, Think (Str ''hello'')), (4, GetState)]" "\<lambda>t. ''T''"] m c r
  show ?thesis
    by simp
qed

text \<open>
  Claim C3. Called with a string outside the mood set, \<open>setMood\<close> returns the rejection
  message, which lists the eight valid moods, and the whole record is as before.
\<close>

theorem setMood_rejects_non_member:
  "x \<notin> set VALID_MOODS \<Longrightarrow>
     setMood now (Str x) s =
       (CHR 0x27 # x @ CHR 0x27 #
          '' - try one of: focused, contemplative, restless, content, tired, curious, affectionate, neutral'',
        s)"
  by (simp add: setMood_def join_VALID_MOODS)

theorem setMood_rejects_non_member_witness:
  "''happy'' \<notin> set VALID_MOODS \<and>
   setMood 9 (Str ''happy'') initial_state =
     (CHR 0x27 # ''happy'' @ CHR 0x27 #
        '' - try one of: focused, contemplative, restless, content, tired, curious, affectionate, neutral'',
      initial_state)"
proof -
  have "''happy'' \<notin> set VALID_MOODS"
    by (simp add: VALID_MOODS_def)
  then show ?thesis
    using setMood_rejects_non_member [of "''happy''" 9 initial_state] by simp
qed

section \<open>Moving\<close>

text \<open>
  Claim C4, as stated, gives \<open>moveTo\<close> the two properties of \<open>setMood\<close>, the ordering
  of the stamps among them. Here too the handler stores the reading of the wall clock
  unconditionally: after a \<open>think\<close> call at instant 5, an accepted \<open>moveTo\<close> call whose
  clock reads 3 replaces the stamp 5 by the stamp 3.
\<close>

theorem moveTo_stamp_order_counterexample:
  "''couch'' \<in> set VALID_LOCATIONS \<and>
   last_updated (snd (think 5 (Str ''x'') initial_state)) = Some 5 \<and>
   last_updated (snd (moveTo 3 (Str ''couch'') (snd (think 5 (Str ''x'') initial_state))))
     = Some 3 \<and>
   \<not> last_updated (snd (think 5 (Str ''x'') initial_state))
       \<le> last_updated
           (snd (moveTo 3 (Str ''couch'') (snd (think 5 (Str ''x'') initial_state))))"
  by (simp add: moveTo_state think_state VALID_LOCATIONS_def)

text \<open>
  Claim C4, amended. Called with a string of the location set, in any state, \<open>moveTo\<close>
  stores that string as the location, sets \<open>last_updated\<close> to the clock reading of the
  call, changes nothing else, and its message ends with the description that
  \<^const>\<open>LOCATION_DESCRIPTIONS\<close> gives for the destination. The new stamp is not earlier
  than the previous one exactly when the clock reading of the call is not earlier than
  the previous stamp; this is so, in the state a history of handler calls has produced,
  whenever the clock readings of the history and of the call never decrease. Called with
  any other string \<open>moveTo\<close> returns the rejection message listing the six locations and
  leaves the record as it was.
\<close>

theorem moveTo_like_setMood:
  "(l \<in> set VALID_LOCATIONS \<longrightarrow>
      (\<exists>d. map_of LOCATION_DESCRIPTIONS l = Some d \<and>
         moveTo now (Str l) s =
           (''Moved from '' @ to_string (location s) @ '' to '' @ l @ ''. '' @ d,
            s\<lparr>location := Str l, last_updated := Some now\<rparr>)) \<and>
      (last_updated s \<le> last_updated (snd (moveTo now (Str l) s)))
        = (last_updated s \<le> Some now) \<and>
      (sorted (map fst hist @ [now]) \<longrightarrow>
         last_updated (run toISO hist initial_state)
           \<le> last_updated (snd (moveTo now (Str l) (run toISO hist initial_state))))) \<and>
   (l \<notin> set VALID_LOCATIONS \<longrightarrow>
      moveTo now (Str l) s =
        (CHR 0x27 # l @ CHR 0x27 #
           '' - try one of: desk, window, couch, kitchen, bookshelf, center'',
         s))"
proof (intro conjI impI)
  assume l: "l \<in> set VALID_LOCATIONS"
  with description_of_member [OF l]
  show "\<exists>d. map_of LOCATION_DESCRIPTIONS l = Some d \<and>
         moveTo now (Str l) s =
           (''Moved from '' @ to_string (location s) @ '' to '' @ l @ ''. '' @ d,
            s\<lparr>location := Str l, last_updated := Some now\<rparr>)"
    by (simp add: moveTo_def)
next
  assume "l \<in> set VALID_LOCATIONS"
  then show "(last_updated s \<le> last_updated (snd (moveTo now (Str l) s)))
      = (last_updated s \<le> Some now)"
    by (simp add: moveTo_state)
next
  assume l: "l \<in> set VALID_LOCATIONS" and "sorted (map fst hist @ [now])"
  from this(2) have "last_updated (run toISO hist initial_state) \<le> Some now"
    by (rule run_stamp_le) (simp add: initial_state_def)
  with l show "last_updated (run toISO hist initial_state)
      \<le> last_updated (snd (moveTo now (Str l) (run toISO hist initial_state)))"
    by (simp add: moveTo_state)
next
  assume "l \<notin> set VALID_LOCATIONS"
  then show "moveTo now (Str l) s =
        (CHR 0x27 # l @ CHR 0x27 #
           '' - try one of: desk, window, couch, kitchen, bookshelf, center'',
         s)"
    by (simp add: moveTo_def join_VALID_LOCATIONS)
qed

theorem moveTo_like_setMood_witness:
  "sorted (map fst [(3, SetMood (Str ''curious''))] @ [8 :: nat]) \<and>
   ''window'' \<in> set VALID_LOCATIONS \<and> ''garden'' \<notin> set VALID_LOCATIONS \<and>
   run (\<lambda>t. ''T'') [(3, SetMood (Str ''curious''))] initial_state =
     \<lparr>mood = Str ''curious'', location = Str ''desk'', thought = Str [],
      action = Str ''initializing'', focus = None, last_updated = Some 3\<rparr> \<and>
   moveTo 8 (Str ''window'')
       \<lparr>mood = Str ''curious'', location = Str ''desk'', thought = Str [],
        action = Str ''initializing'', focus = None, last_updated = Some 3\<rparr> =
     (''Moved from desk to window. Looking out at the world, thinking'',
      \<lparr>mood = Str ''curious'', location = Str ''window'', thought = Str [],
       action = Str ''initializing'', focus = None, last_updated = Some 8\<rparr>) \<and>
   Some 3 \<le> Some (8 :: nat) \<and>
   Some 3 \<le> last_updated
     (snd (moveTo 8 (Str ''window'')
        \<lparr>mood = Str ''curious'', location = Str ''desk'', thought = Str [],
         action = Str ''initializing'', focus = None, last_updated = Some 3\<rparr>)) \<and>
   moveTo 8 (Str ''garden'')
       \<lparr>mood = Str ''curious'', location = Str ''desk'', thought = Str [],
        action = Str ''initializing'', focus = None, last_updated = Some 3\<rparr> =
     (CHR 0x27 # ''garden'' @ CHR 0x27 #
        '' - try one of: desk, window, couch, kitchen, bookshelf, center'',
      \<lparr>mood = Str ''curious'', location = Str ''desk'', thought = Str [],
       action = Str ''initializing'', focus = None, last_updated = Some 3\<rparr>)"
proof -
  have c: "sorted (map fst [(3, SetMood (Str ''curious''))] @ [8 :: nat])"
    by simp
  have w: "''window'' \<in> set VALID_LOCATIONS" and g: "''garden'' \<notin> set VALID_LOCATIONS"
    by (simp_all add: VALID_LOCATIONS_def)
  have d: "map_of LOCATION_DESCRIPTIONS ''window'' = Some ''Looking out at the world, thinking''"
    by (simp add: LOCATION_DESCRIPTIONS_def)
  have r: "run (\<lambda>t. ''T'') [(3, SetMood (Str ''curious''))] initial_state =
      \<lparr>mood = Str ''curious'', location = Str ''desk'', thought = Str [],
       action = Str ''initializing'', focus = None, last_updated = Some 3\<rparr>"
    by (simp add: setMood_def initial_state_def VALID_MOODS_def)
  from moveTo_like_setMood [of "''window''" 8
      "\<lparr>mood = Str ''curious'', location = Str ''desk'', thought = Str [],
        action = Str ''initializing'', focus = None, last_updated = Some 3\<rparr>"
      "[(3, SetMood (Str ''curious''))]" "\<lambda>t. ''T''"]
    moveTo_like_setMood [of "''garden''" 8
      "\<lparr>mood = Str ''curious'', location = Str ''desk'', thought = Str [],
        action = Str ''initializing'', focus = None, last_updated = Some 3\<rparr>"
      "[(3, SetMood (Str ''curious''))]" "\<lambda>t. ''T''"] c w g d r
  show ?thesis
    by auto
qed

section \<open>The bearer check of the mutating routes\<close>

text \<open>
  Claim C5. For the three mutating routes: when a token is configured (the environment
  variable holds a non-empty string), the answer is the 401 response exactly when the
  \<^verbatim>\<open>authorization\<close> header is anything but \<^verbatim>\<open>Bearer \<close> followed by the token, a
  missing header included, and then the record is untouched; with exactly that header the
  route does what it does with no token configured. With no token configured the header
  is never looked at: the route reads its field of the body and calls its handler.
\<close>

theorem bearer_check:
  "(AUTH_TOKEN env \<noteq> [] \<longrightarrow>
      (fst (post_set_mood env now req s) = Inr \<lparr>status = 401, json = Error_body ''Unauthorized''\<rparr>)
        = (authorization req \<noteq> Some (''Bearer '' @ AUTH_TOKEN env)) \<and>
      (fst (post_move_to env now req s) = Inr \<lparr>status = 401, json = Error_body ''Unauthorized''\<rparr>)
        = (authorization req \<noteq> Some (''Bearer '' @ AUTH_TOKEN env)) \<and>
      (fst (post_think env now req s) = Inr \<lparr>status = 401, json = Error_body ''Unauthorized''\<rparr>)
        = (authorization req \<noteq> Some (''Bearer '' @ AUTH_TOKEN env))) \<and>
   (AUTH_TOKEN env \<noteq> [] \<and> authorization req = Some (''Bearer '' @ AUTH_TOKEN env) \<longrightarrow>
      post_set_mood env now req s = post_set_mood None now req s \<and>
      post_move_to env now req s = post_move_to None now req s \<and>
      post_think env now req s = post_think None now req s) \<and>
   (AUTH_TOKEN env \<noteq> [] \<and> authorization req \<noteq> Some (''Bearer '' @ AUTH_TOKEN env) \<longrightarrow>
      post_set_mood env now req s = (Inr \<lparr>status = 401, json = Error_body ''Unauthorized''\<rparr>, s) \<and>
      post_move_to env now req s = (Inr \<lparr>status = 401, json = Error_body ''Unauthorized''\<rparr>, s) \<and>
      post_think env now req s = (Inr \<lparr>status = 401, json = Error_body ''Unauthorized''\<rparr>, s)) \<and>
   (AUTH_TOKEN env = [] \<longrightarrow>
      post_set_mood env now req s =
        (case body req of
           None \<Rightarrow> (Inl TypeError, s)
         | Some b \<Rightarrow>
             (Inr \<lparr>status = 200, json = Result_body (fst (setMood now (get_property b ''mood'') s))\<rparr>,
              snd (setMood now (get_property b ''mood'') s))) \<and>
      post_move_to env now req s =
        (case body req of
           None \<Rightarrow> (Inl TypeError, s)
         | Some b \<Rightarrow>
             (Inr \<lparr>status = 200, json = Result_body (fst (moveTo now (get_property b ''location'') s))\<rparr>,
              snd (moveTo now (get_property b ''location'') s))) \<and>
      post_think env now req s =
        (case body req of
           None \<Rightarrow> (Inl TypeError, s)
         | Some b \<Rightarrow>
             (Inr \<lparr>status = 200, json = Result_body (fst (think now (get_property b ''thought'') s))\<rparr>,
              snd (think now (get_property b ''thought'') s))))"
proof -
  have closed: "post_set_mood env now req s = (Inr \<lparr>status = 401, json = Error_body ''Unauthorized''\<rparr>, s) \<and>
      post_move_to env now req s = (Inr \<lparr>status = 401, json = Error_body ''Unauthorized''\<rparr>, s) \<and>
      post_think env now req s = (Inr \<lparr>status = 401, json = Error_body ''Unauthorized''\<rparr>, s)"
    if "AUTH_TOKEN env \<noteq> []" and "authorization req \<noteq> Some (''Bearer '' @ AUTH_TOKEN env)"
  proof -
    from that have t: "AUTH_TOKEN env \<noteq> []" and c: "\<not> checkAuth env req"
      by (simp_all add: checkAuth_iff)
    show ?thesis
      by (intro conjI) (rule post_closed [OF t c])+
  qed
  have none: "AUTH_TOKEN None = [] \<or> checkAuth None req"
    by (rule disjI1) (rule AUTH_TOKEN_None)
  have passed: "post_set_mood env now req s = post_set_mood None now req s \<and>
      post_move_to env now req s = post_move_to None now req s \<and>
      post_think env now req s = post_think None now req s"
    if ok: "AUTH_TOKEN env = [] \<or> checkAuth env req"
    by (simp only: post_set_mood_open [OF ok] post_set_mood_open [OF none]
        post_move_to_open [OF ok] post_move_to_open [OF none]
        post_think_open [OF ok] post_think_open [OF none] simp_thms)
  have iff: "(fst (post_set_mood env now req s) = Inr \<lparr>status = 401, json = Error_body ''Unauthorized''\<rparr>)
        = (authorization req \<noteq> Some (''Bearer '' @ AUTH_TOKEN env)) \<and>
      (fst (post_move_to env now req s) = Inr \<lparr>status = 401, json = Error_body ''Unauthorized''\<rparr>)
        = (authorization req \<noteq> Some (''Bearer '' @ AUTH_TOKEN env)) \<and>
      (fst (post_think env now req s) = Inr \<lparr>status = 401, json = Error_body ''Unauthorized''\<rparr>)
        = (authorization req \<noteq> Some (''Bearer '' @ AUTH_TOKEN env))"
    if t: "AUTH_TOKEN env \<noteq> []"
  proof (cases "authorization req = Some (''Bearer '' @ AUTH_TOKEN env)")
    case True
    then have "checkAuth env req" by (simp only: checkAuth_iff)
    then have ok: "AUTH_TOKEN env = [] \<or> checkAuth env req" by (rule disjI2)
    from post_open_not_401 [OF ok, of now s] True show ?thesis by simp
  next
    case False
    from closed [OF t False] False show ?thesis by simp
  qed
  have passed_by_header:
    "post_set_mood env now req s = post_set_mood None now req s \<and>
      post_move_to env now req s = post_move_to None now req s \<and>
      post_think env now req s = post_think None now req s"
    if "authorization req = Some (''Bearer '' @ AUTH_TOKEN env)"
  proof -
    from that have "checkAuth env req" by (simp only: checkAuth_iff)
    then have "AUTH_TOKEN env = [] \<or> checkAuth env req" by (rule disjI2)
    then show ?thesis by (rule passed)
  qed
  have no_token:
    "post_set_mood env now req s =
        (case body req of
           None \<Rightarrow> (Inl TypeError, s)
         | Some b \<Rightarrow>
             (Inr \<lparr>status = 200, json = Result_body (fst (setMood now (get_property b ''mood'') s))\<rparr>,
              snd (setMood now (get_property b ''mood'') s))) \<and>
      post_move_to env now req s =
        (case body req of
           None \<Rightarrow> (Inl TypeError, s)
         | Some b \<Rightarrow>
             (Inr \<lparr>status = 200, json = Result_body (fst (moveTo now (get_property b ''location'') s))\<rparr>,
              snd (moveTo now (get_property b ''location'') s))) \<and>
      post_think env now req s =
        (case body req of
           None \<Rightarrow> (Inl TypeError, s)
         | Some b \<Rightarrow>
             (Inr \<lparr>status = 200, json = Result_body (fst (think now (get_property b ''thought'') s))\<rparr>,
              snd (think now (get_property b ''thought'') s)))"
    if "AUTH_TOKEN env = []"
  proof -
    from that have ok: "AUTH_TOKEN env = [] \<or> checkAuth env req" by (rule disjI1)
    show ?thesis
      by (intro conjI) (rule post_set_mood_open [OF ok] post_move_to_open [OF ok]
          post_think_open [OF ok])+
  qed
  from iff passed_by_header closed no_token show ?thesis
    by blast
qed

theorem bearer_check_witness:
  "AUTH_TOKEN (Some ''s3cret'') \<noteq> [] \<and> AUTH_TOKEN None = [] \<and>
   post_set_mood (Some ''s3cret'') 7
       \<lparr>authorization = Some ''Bearer s3cret'', body = Some [''mood'' \<mapsto> Str ''tired'']\<rparr>
       initial_state =
     (Inr \<lparr>status = 200, json = Result_body ''Mood shifted from neutral to tired''\<rparr>,
      initial_state\<lparr>mood := Str ''tired'', last_updated := Some 7\<rparr>) \<and>
   post_set_mood (Some ''s3cret'') 7
       \<lparr>authorization = None, body = Some [''mood'' \<mapsto> Str ''tired'']\<rparr> initial_state =
     (Inr \<lparr>status = 401, json = Error_body ''Unauthorized''\<rparr>, initial_state) \<and>
   post_move_to (Some ''s3cret'') 7
       \<lparr>authorization = Some ''Bearer s3cret '', body = Some [''location'' \<mapsto> Str ''couch'']\<rparr>
       initial_state =
     (Inr \<lparr>status = 401, json = Error_body ''Unauthorized''\<rparr>, initial_state) \<and>
   post_think None 7 \<lparr>authorization = None, body = Some [''thought'' \<mapsto> Str ''hello'']\<rparr>
       initial_state =
     (Inr \<lparr>status = 200, json = Result_body (''Thinking: '' @ CHR 0x27 # ''hello'' @ [CHR 0x27])\<rparr>,
      initial_state\<lparr>thought := Str ''hello'', last_updated := Some 7\<rparr>)"
proof -
  have t: "AUTH_TOKEN (Some ''s3cret'') = ''s3cret''" and n: "AUTH_TOKEN None = []"
    by (simp_all add: AUTH_TOKEN_def)
  have m: "setMood 7 (Str ''tired'') initial_state =
      (''Mood shifted from neutral to tired'',
       initial_state\<lparr>mood := Str ''tired'', last_updated := Some 7\<rparr>)"
    by (simp add: setMood_def VALID_MOODS_def initial_state_def)
  have h: "think 7 (Str ''hello'') initial_state =
      (''Thinking: '' @ CHR 0x27 # ''hello'' @ [CHR 0x27],
       initial_state\<lparr>thought := Str ''hello'', last_updated := Some 7\<rparr>)"
    by (simp add: think_def)
  from bearer_check [of "Some ''s3cret''" 7
      "\<lparr>authorization = Some ''Bearer s3cret'', body = Some [''mood'' \<mapsto> Str ''tired'']\<rparr>"
      initial_state]
    bearer_check [of None 7
      "\<lparr>authorization = Some ''Bearer s3cret'', body = Some [''mood'' \<mapsto> Str ''tired'']\<rparr>"
      initial_state]
  have a: "post_set_mood (Some ''s3cret'') 7
       \<lparr>authorization = Some ''Bearer s3cret'', body = Some [''mood'' \<mapsto> Str ''tired'']\<rparr>
       initial_state =
     (Inr \<lparr>status = 200, json = Result_body ''Mood shifted from neutral to tired''\<rparr>,
      initial_state\<lparr>mood := Str ''tired'', last_updated := Some 7\<rparr>)"
    by (simp add: t n m get_property_def)
  from bearer_check [of "Some ''s3cret''" 7
      "\<lparr>authorization = None, body = Some [''mood'' \<mapsto> Str ''tired'']\<rparr>" initial_state]
  have b: "post_set_mood (Some ''s3cret'') 7
       \<lparr>authorization = None, body = Some [''mood'' \<mapsto> Str ''tired'']\<rparr> initial_state =
     (Inr \<lparr>status = 401, json = Error_body ''Unauthorized''\<rparr>, initial_state)"
    by (simp add: t)
  from bearer_check [of "Some ''s3cret''" 7
      "\<lparr>authorization = Some ''Bearer s3cret '', body = Some [''location'' \<mapsto> Str ''couch'']\<rparr>"
      initial_state]
  have c: "post_move_to (Some ''s3cret'') 7
       \<lparr>authorization = Some ''Bearer s3cret '', body = Some [''location'' \<mapsto> Str ''couch'']\<rparr>
       initial_state =
     (Inr \<lparr>status = 401, json = Error_body ''Unauthorized''\<rparr>, initial_state)"
    by (simp add: t)
  from bearer_check [of None 7
      "\<lparr>authorization = None, body = Some [''thought'' \<mapsto> Str ''hello'']\<rparr>" initial_state]
  have d: "post_think None 7 \<lparr>authorization = None, body = Some [''thought'' \<mapsto> Str ''hello'']\<rparr>
       initial_state =
     (Inr \<lparr>status = 200, json = Result_body (''Thinking: '' @ CHR 0x27 # ''hello'' @ [CHR 0x27])\<rparr>,
      initial_state\<lparr>thought := Str ''hello'', last_updated := Some 7\<rparr>)"
    by (simp add: n h get_property_def)
  from a b c d t n show ?thesis
    by (simp only: simp_thms) simp
qed

section \<open>Reading the state\<close>

text \<open>
  Claim C6. \<open>getState\<close> changes nothing: the record after the call is the record before
  it, \<open>last_updated\<close> included. The text returned is the JSON serialization of the
  record's six properties, and it is the full record: two records with the same text
  agree on mood, location, thought, action and focus, and on the ISO rendering of
  \<open>last_updated\<close>.
\<close>

theorem getState_pure_read:
  "snd (getState toISO s) = s \<and>
   last_updated (snd (getState toISO s)) = last_updated s \<and>
   fst (getState toISO s) = SerializeJSONObject (properties toISO s) \<and>
   (fst (getState toISO s) = fst (getState toISO s') \<longrightarrow>
      mood s = mood s' \<and> location s = location s' \<and> thought s = thought s' \<and>
      action s = action s' \<and> focus s = focus s' \<and>
      map_option toISO (last_updated s) = map_option toISO (last_updated s'))"
proof -
  have "mood s = mood s' \<and> location s = location s' \<and> thought s = thought s' \<and>
      action s = action s' \<and> focus s = focus s' \<and>
      map_option toISO (last_updated s) = map_option toISO (last_updated s')"
    if "fst (getState toISO s) = fst (getState toISO s')"
  proof -
    from that have "SerializeJSONObject (properties toISO s)
        = SerializeJSONObject (properties toISO s')"
      by (simp add: getState_def)
    then have "filter present (properties toISO s) = filter present (properties toISO s')"
      by (rule SerializeJSONObject_inj)
    then show ?thesis
      by (rule property_of_present)
  qed
  then show ?thesis
    by (simp add: getState_def)
qed

theorem getState_pure_read_witness:
  "snd (getState (\<lambda>t. ''T'') (snd (think 7 Undefined initial_state)))
     = snd (think 7 Undefined initial_state) \<and>
   fst (getState (\<lambda>t. ''T'') (snd (think 7 Undefined initial_state))) =
     CHR ''{'' # CHR 0x0A #
     ''  '' @ CHR 0x22 # ''mood'' @ CHR 0x22 # '': '' @ CHR 0x22 # ''neutral'' @ CHR 0x22 #
       CHR '','' # CHR 0x0A #
     ''  '' @ CHR 0x22 # ''location'' @ CHR 0x22 # '': '' @ CHR 0x22 # ''desk'' @ CHR 0x22 #
       CHR '','' # CHR 0x0A #
     ''  '' @ CHR 0x22 # ''action'' @ CHR 0x22 # '': '' @ CHR 0x22 # ''initializing'' @ CHR 0x22 #
       CHR '','' # CHR 0x0A #
     ''  '' @ CHR 0x22 # ''focus'' @ CHR 0x22 # '': null'' @
       CHR '','' # CHR 0x0A #
     ''  '' @ CHR 0x22 # ''last_updated'' @ CHR 0x22 # '': '' @ CHR 0x22 # ''T'' @ CHR 0x22 #
       [CHR 0x0A, CHR ''}''] \<and>
   fst (getState (\<lambda>t. ''T'') (snd (think 7 Undefined initial_state)))
     \<noteq> fst (getState (\<lambda>t. ''T'') (snd (think 7 (Str ''undefined'') initial_state)))"
proof -
  let ?s = "snd (think 7 Undefined initial_state)"
  let ?s' = "snd (think 7 (Str ''undefined'') initial_state)"
  have same: "fst (getState (\<lambda>t. ''T'') ?s) = fst (getState (\<lambda>t. ''T'') ?s)"
    by (rule refl)
  have "thought ?s \<noteq> thought ?s'"
    by (simp add: think_state)
  with getState_pure_read [of "\<lambda>t. ''T''" ?s ?s'] getState_pure_read [of "\<lambda>t. ''T''" ?s ?s] same
  have "snd (getState (\<lambda>t. ''T'') ?s) = ?s"
    and "fst (getState (\<lambda>t. ''T'') ?s) \<noteq> fst (getState (\<lambda>t. ''T'') ?s')"
    by blast+
  moreover have "fst (getState (\<lambda>t. ''T'') ?s) =
     CHR ''{'' # CHR 0x0A #
     ''  '' @ CHR 0x22 # ''mood'' @ CHR 0x22 # '': '' @ CHR 0x22 # ''neutral'' @ CHR 0x22 #
       CHR '','' # CHR 0x0A #
     ''  '' @ CHR 0x22 # ''location'' @ CHR 0x22 # '': '' @ CHR 0x22 # ''desk'' @ CHR 0x22 #
       CHR '','' # CHR 0x0A #
     ''  '' @ CHR 0x22 # ''action'' @ CHR 0x22 # '': '' @ CHR 0x22 # ''initializing'' @ CHR 0x22 #
       CHR '','' # CHR 0x0A #
     ''  '' @ CHR 0x22 # ''focus'' @ CHR 0x22 # '': null'' @
       CHR '','' # CHR 0x0A #
     ''  '' @ CHR 0x22 # ''last_updated'' @ CHR 0x22 # '': '' @ CHR 0x22 # ''T'' @ CHR 0x22 #
       [CHR 0x0A, CHR ''}'']"
    by (simp add: getState_def think_def initial_state_def properties_def
        SerializeJSONObject_def QuoteJSONString_def quote_char_def List.map_filter_simps)
  ultimately show ?thesis
    by (simp only: simp_thms)
qed

section \<open>The tool-call dispatcher\<close>

text \<open>
  Claim C7. A call that names none of the five tools returns, as an ordinary result, one
  text item \<^verbatim>\<open>Unknown tool: <name>\<close>, and the record is as before. The dispatcher is a
  total function with no error branch: none of its paths throws.
\<close>

theorem unknown_tool_reported:
  "name params \<notin> {''set_mood'', ''move_to'', ''think'', ''set_action'', ''get_state''} \<Longrightarrow>
     call_tool toISO now params s = ([Text (''Unknown tool: '' @ name params)], s)"
  unfolding call_tool_def Let_def
  by (simp only: insert_iff empty_iff de_Morgan_disj if_False simp_thms)

theorem unknown_tool_reported_witness:
  "''update_presence'' \<notin> {''set_mood'', ''move_to'', ''think'', ''set_action'', ''get_state''} \<and>
   call_tool (\<lambda>t. ''T'') 7
       \<lparr>name = ''update_presence'', arguments = Some [''mood'' \<mapsto> Str ''tired'']\<rparr> initial_state =
     ([Text ''Unknown tool: update_presence''], initial_state)"
proof -
  have n: "name \<lparr>name = ''update_presence'', arguments = Some [''mood'' \<mapsto> Str ''tired'']\<rparr>
      \<notin> {''set_mood'', ''move_to'', ''think'', ''set_action'', ''get_state''}"
    by simp
  from unknown_tool_reported [OF n, of "\<lambda>t. ''T''" 7 initial_state] show ?thesis
    by simp
qed

section \<open>What each handler leaves alone\<close>

text \<open>
  Claim C8. Whatever its argument, and whether it accepts or rejects, \<open>setMood\<close> leaves
  location, thought, action and focus as they were; \<open>moveTo\<close> leaves mood, thought,
  action and focus; \<open>think\<close> leaves mood, location, action and focus; \<open>setAction\<close> leaves
  mood, location, thought and focus. No handler writes \<open>focus\<close>, which is therefore
  \<^verbatim>\<open>null\<close> after every history from the startup record.
\<close>

theorem handlers_frame:
  "(location (snd (setMood now v s)) = location s \<and> thought (snd (setMood now v s)) = thought s \<and>
    action (snd (setMood now v s)) = action s \<and> focus (snd (setMood now v s)) = focus s) \<and>
   (mood (snd (moveTo now v s)) = mood s \<and> thought (snd (moveTo now v s)) = thought s \<and>
    action (snd (moveTo now v s)) = action s \<and> focus (snd (moveTo now v s)) = focus s) \<and>
   (mood (snd (think now v s)) = mood s \<and> location (snd (think now v s)) = location s \<and>
    action (snd (think now v s)) = action s \<and> focus (snd (think now v s)) = focus s) \<and>
   (mood (snd (setAction now v s)) = mood s \<and> location (snd (setAction now v s)) = location s \<and>
    thought (snd (setAction now v s)) = thought s \<and> focus (snd (setAction now v s)) = focus s) \<and>
   focus (run toISO hist initial_state) = None"
proof -
  have step: "focus (snd (handler toISO t c r)) = focus r" for t c r
    by (cases c) (simp_all add: handler_state)
  have "focus (run toISO hist r) = focus r" for r
    by (induction hist arbitrary: r) (auto simp: step)
  then have "focus (run toISO hist initial_state) = None"
    by (simp add: initial_state_def)
  then show ?thesis
    by (simp add: handler_state)
qed

section \<open>The stamp, once set, stays set\<close>

text \<open>
  Claim C9. From a state whose \<open>last_updated\<close> is not \<^verbatim>\<open>null\<close>, no sequence of calls of
  the five handlers leads to a state where it is \<^verbatim>\<open>null\<close> again.
\<close>

theorem stamp_never_absent_again:
  "last_updated s \<noteq> None \<Longrightarrow> last_updated (run toISO hist s) \<noteq> None"
proof (induction hist arbitrary: s)
  case Nil
  then show ?case by simp
next
  case (Cons e hist)
  obtain t c where e: "e = (t, c)" by (cases e)
  from Cons.prems handler_stamp [of toISO t c s]
  have "last_updated (snd (handler toISO t c s)) \<noteq> None" by auto
  then show ?case using Cons.IH e by simp
qed

theorem stamp_never_absent_again_witness:
  "last_updated (snd (think 2 (Str ''hello'') initial_state)) \<noteq> None \<and>
   last_updated
     (run (\<lambda>t. ''T'')
        [(3, SetMood (Str ''happy'')), (4, MoveTo Undefined), (5, GetState),
         (6, SetAction (Str ''reading'')), (7, Think Null)]
        (snd (think 2 (Str ''hello'') initial_state))) \<noteq> None"
proof -
  have "last_updated (snd (think 2 (Str ''hello'') initial_state)) \<noteq> None"
    by (simp add: think_state)
  then show ?thesis
    using stamp_never_absent_again [of "snd (think 2 (Str ''hello'') initial_state)"] by blast
qed

section \<open>A tool call without its argument\<close>

text \<open>
  Claim C10. When a \<^verbatim>\<open>set_mood\<close> or \<^verbatim>\<open>move_to\<close> call has no arguments object, or one
  without the property the tool reads, the handler receives \<^verbatim>\<open>undefined\<close> and rejects
  it: the result is the rejection message for \<^verbatim>\<open>'undefined'\<close> with the list of valid
  values, returned as an ordinary text item, and the record is as before.
\<close>

theorem missing_argument_rejected:
  "(name params = ''set_mood'' \<and>
      (arguments params = None \<or> (\<exists>obj. arguments params = Some obj \<and> obj ''mood'' = None)) \<longrightarrow>
      call_tool toISO now params s =
        ([Text (CHR 0x27 # ''undefined'' @ CHR 0x27 #
            '' - try one of: focused, contemplative, restless, content, tired, curious, affectionate, neutral'')],
         s)) \<and>
   (name params = ''move_to'' \<and>
      (arguments params = None \<or> (\<exists>obj. arguments params = Some obj \<and> obj ''location'' = None)) \<longrightarrow>
      call_tool toISO now params s =
        ([Text (CHR 0x27 # ''undefined'' @ CHR 0x27 #
            '' - try one of: desk, window, couch, kitchen, bookshelf, center'')],
         s))"
proof (intro conjI impI)
  assume a: "name params = ''set_mood'' \<and>
      (arguments params = None \<or> (\<exists>obj. arguments params = Some obj \<and> obj ''mood'' = None))"
  then have "optional_property (arguments params) ''mood'' = Undefined"
    by (auto simp: optional_property_def get_property_def)
  with a show "call_tool toISO now params s =
        ([Text (CHR 0x27 # ''undefined'' @ CHR 0x27 #
            '' - try one of: focused, contemplative, restless, content, tired, curious, affectionate, neutral'')],
         s)"
    by (simp add: call_tool_def setMood_def join_VALID_MOODS)
next
  assume a: "name params = ''move_to'' \<and>
      (arguments params = None \<or> (\<exists>obj. arguments params = Some obj \<and> obj ''location'' = None))"
  then have "optional_property (arguments params) ''location'' = Undefined"
    by (auto simp: optional_property_def get_property_def)
  with a show "call_tool toISO now params s =
        ([Text (CHR 0x27 # ''undefined'' @ CHR 0x27 #
            '' - try one of: desk, window, couch, kitchen, bookshelf, center'')],
         s)"
    by (simp add: call_tool_def moveTo_def join_VALID_LOCATIONS)
qed

theorem missing_argument_rejected_witness:
  "call_tool (\<lambda>t. ''T'') 7 \<lparr>name = ''set_mood'', arguments = None\<rparr> initial_state =
     ([Text (CHR 0x27 # ''undefined'' @ CHR 0x27 #
         '' - try one of: focused, contemplative, restless, content, tired, curious, affectionate, neutral'')],
      initial_state) \<and>
   call_tool (\<lambda>t. ''T'') 7
       \<lparr>name = ''move_to'', arguments = Some [''place'' \<mapsto> Str ''couch'']\<rparr> initial_state =
     ([Text (CHR 0x27 # ''undefined'' @ CHR 0x27 #
         '' - try one of: desk, window, couch, kitchen, bookshelf, center'')],
      initial_state)"
proof -
  have "[''place'' \<mapsto> Str ''couch''] ''location'' = None"
    by simp
  then show ?thesis
    using missing_argument_rejected [of "\<lparr>name = ''set_mood'', arguments = None\<rparr>"
        "\<lambda>t. ''T''" 7 initial_state]
      missing_argument_rejected
        [of "\<lparr>name = ''move_to'', arguments = Some [''place'' \<mapsto> Str ''couch'']\<rparr>"
        "\<lambda>t. ''T''" 7 initial_state]
    by simp
qed

end
